theory Spec2Isabelle
  imports Complex_Main
begin

section \<open>The side panel's tab grid layout\<close>

text \<open>
  The side panel component lays its tabs out in a wrapping grid. The geometry is computed
  by four module-level arrow functions (\<open>getTabWidth\<close>, \<open>getGridWidth\<close>,
  \<open>getNumGridColumns\<close>, \<open>getGridStyle\<close>) and consumed by \<open>getTabClassNames\<close> and by
  the \<open>getTabGridComponent\<close> closure of the component.

  Numbers. The source works on JavaScript numbers. Tab counts are array lengths and the
  widths are pixel counts, so arguments are modelled as \<open>int\<close>: on integers of safe
  magnitude the double arithmetic of \<open>+\<close>, \<open>-\<close> and \<open>*\<close> is exact. A quotient \<open>a / b\<close>
  is taken in \<open>rat\<close>, and \<open>Math.floor\<close> is the floor of that quotient; the one quotient
  that the source does not floor (in \<open>getGridStyle\<close>) is a halving, which binary floating
  point represents exactly, so its value is kept as a \<open>rat\<close>.
\<close>

subsection \<open>Module constants\<close>

definition closeIconWidth :: int where
  "closeIconWidth = 30"

definition gridHorizontalPadding :: int where
  "gridHorizontalPadding = 10"

definition tabSpacerWidth :: int where
  "tabSpacerWidth = 2"

subsection \<open>JavaScript primitives used by the layout code\<close>

definition Math_floor :: "rat \<Rightarrow> int" where
  "Math_floor x = \<lfloor>x\<rfloor>"

text \<open>
  The remainder operator \<open>a % b\<close>: the result takes the sign of the dividend, and a zero
  divisor gives \<open>NaN\<close>, modelled by \<open>None\<close>. \<open>NaN === 0\<close> is false and \<open>NaN !== 0\<close> is
  true, which is what comparing \<open>None\<close> with \<open>Some 0\<close> gives.
\<close>

definition js_rem :: "int \<Rightarrow> int \<Rightarrow> int option" where
  "js_rem a b = (if b = 0 then None else Some (sgn a * (\<bar>a\<bar> mod \<bar>b\<bar>)))"

text \<open>
  The \<open>classnames\<close> package, called with a string and an object: the string followed by
  the keys whose value is truthy, in the object's order. The package joins these parts
  with single spaces; the model keeps the list of parts.
\<close>

definition classnames :: "string \<Rightarrow> (string \<times> bool) list \<Rightarrow> string list" where
  "classnames base obj = base # map fst (filter snd obj)"

text \<open>A template string \<open>`${x}px`\<close> is kept as the number it prints.\<close>

datatype css_length = Px rat

subsection \<open>Widths and column count\<close>

definition getTabWidth :: "int \<Rightarrow> int" where
  "getTabWidth numTabs = (if numTabs < 3 then 68 else 40)"

definition getGridWidth :: "int \<Rightarrow> int \<Rightarrow> int" where
  "getGridWidth numTabs gridAvailableWidth =
     (let spacersWidth = (numTabs - 1) * tabSpacerWidth;
          tabsWidth = getTabWidth numTabs * numTabs
      in if gridAvailableWidth > tabsWidth + spacersWidth
         then tabsWidth + spacersWidth
         else gridAvailableWidth)"

definition getNumGridColumns :: "int \<Rightarrow> int \<Rightarrow> int" where
  "getNumGridColumns numTabs gridWidth =
     (if numTabs = 1 then 1
      else
        let tabWidth = getTabWidth numTabs;
            numTabsWithOneSpacerEach =
              Math_floor (of_int gridWidth / of_int (tabWidth + tabSpacerWidth))
        in if (numTabsWithOneSpacerEach + 1) * tabWidth
                + numTabsWithOneSpacerEach * tabSpacerWidth \<le> gridWidth
           then numTabsWithOneSpacerEach + 1
           else numTabsWithOneSpacerEach)"

subsection \<open>Grid style\<close>

text \<open>
  The style object of the grid: \<open>position\<close>, \<open>width\<close>, and exactly one of \<open>right\<close> and
  \<open>left\<close> (a key that the spread does not set is \<open>None\<close>). The parameter \<open>numTabs\<close> is
  not read by the body.
\<close>

record css_properties =
  position :: string
  right :: "css_length option"
  left :: "css_length option"
  width :: css_length

definition getGridStyle :: "string \<Rightarrow> int \<Rightarrow> int \<Rightarrow> int \<Rightarrow> css_properties" where
  "getGridStyle side numTabs gridWidth expandedWidth =
     (let relativePosition =
            max 0 (of_int (Math_floor (of_int expandedWidth - of_int gridWidth)) / 2
                   - of_int closeIconWidth)
      in \<lparr> position = ''relative'',
           right = (if side = ''left'' then Some (Px relativePosition) else None),
           left = (if side = ''left'' then None else Some (Px relativePosition)),
           width = Px (of_int gridWidth) \<rparr>)"

subsection \<open>Tab cells\<close>

definition getTabClassNames :: "int \<Rightarrow> int \<Rightarrow> int \<Rightarrow> bool \<Rightarrow> bool \<Rightarrow> string list" where
  "getTabClassNames numColumns numTabs tabIndex isActiveTab isTabDisabled =
     classnames ''h-[28px] mb-[2px] cursor-pointer text-black bg-white''
       [(''hover:text-primary-active'', \<not> isActiveTab \<and> \<not> isTabDisabled),
        (''rounded-l'', js_rem tabIndex numColumns = Some 0),
        (''rounded-r'',
           js_rem (tabIndex + 1) numColumns = Some 0 \<or> tabIndex = numTabs - 1)]"

definition getTabStyle :: "int \<Rightarrow> css_length" where
  "getTabStyle numTabs = Px (of_int (getTabWidth numTabs))"

record tab =
  name :: string
  label :: string
  iconName :: string
  disabled :: bool

text \<open>
  What the callback of \<open>tabs.map\<close> in \<open>getTabGridComponent\<close> renders for one tab: a
  fragment keyed by the tab's index, holding an optional spacer followed by the tab's
  cell. \<open>spacer\<close> says whether the spacer is rendered; tooltip, icon and click handler
  are left out.
\<close>

record tab_fragment =
  key :: int
  spacer :: bool
  className :: "string list"
  style :: css_length
  data_cy :: string

record tab_grid =
  justify :: string
  gridStyle :: css_properties
  fragments :: "tab_fragment list"

definition tabFragment :: "int \<Rightarrow> int \<Rightarrow> int \<Rightarrow> tab \<Rightarrow> int \<Rightarrow> tab_fragment" where
  "tabFragment numCols numTabs activeTabIndex t tabIndex =
     \<lparr> key = tabIndex,
       spacer = (js_rem tabIndex numCols \<noteq> Some 0),
       className =
         getTabClassNames numCols numTabs tabIndex (tabIndex = activeTabIndex) (disabled t),
       style = getTabStyle numTabs,
       data_cy = name t @ ''-btn'' \<rparr>"

text \<open>
  The component's \<open>side\<close>, \<open>tabs\<close>, \<open>activeTabIndex\<close>, \<open>gridWidth\<close> and
  \<open>expandedWidth\<close>, which the closure reads from its scope, are parameters here.
\<close>

definition getTabGridComponent ::
  "string \<Rightarrow> tab list \<Rightarrow> int \<Rightarrow> int \<Rightarrow> int \<Rightarrow> tab_grid" where
  "getTabGridComponent side tabs activeTabIndex gridWidth expandedWidth =
     (let numCols = getNumGridColumns (int (length tabs)) gridWidth
      in \<lparr> justify = (if side = ''right'' then ''justify-start'' else ''justify-end''),
           gridStyle = getGridStyle side (int (length tabs)) gridWidth expandedWidth,
           fragments =
             map (\<lambda>(t, tabIndex).
                    tabFragment numCols (int (length tabs)) activeTabIndex t tabIndex)
                 (zip tabs (map int [0..<length tabs])) \<rparr>)"

text \<open>
  The component takes the close icon and the horizontal padding off its \<open>expandedWidth\<close>
  property and calls \<open>getGridWidth\<close> with the number of tabs and what is left.
\<close>

definition gridAvailableWidth :: "int \<Rightarrow> int" where
  "gridAvailableWidth expandedWidth = expandedWidth - closeIconWidth - gridHorizontalPadding"

subsection \<open>The operations as the specification words them\<close>

text \<open>
  Column count, from the specification: 1 for a single tab; otherwise, with \<open>w\<close> the tab
  width and \<open>k\<close> the floor of \<open>gridWidth / (w + 2)\<close>, the result is \<open>k + 1\<close> when
  \<open>(k + 1) * w + k * 2\<close> fits in the grid width, and \<open>k\<close> when it does not.
\<close>

definition columnCount_spec :: "int \<Rightarrow> int \<Rightarrow> int" where
  "columnCount_spec numberOfTabs gridWidth =
     (if numberOfTabs = 1 then 1
      else
        let w = getTabWidth numberOfTabs;
            k = \<lfloor>(of_int gridWidth :: rat) / of_int (w + 2)\<rfloor>
        in if (k + 1) * w + k * 2 \<le> gridWidth then k + 1 else k)"

text \<open>
  Horizontal offset, from the specification: the floor of half the free width, less the
  width of the close control (30), and never below 0.
\<close>

definition horizontalOffset_spec :: "int \<Rightarrow> int \<Rightarrow> int" where
  "horizontalOffset_spec expandedPanelWidth gridWidth =
     max 0 (\<lfloor>(of_int expandedPanelWidth - of_int gridWidth :: rat) / 2\<rfloor> - 30)"

section \<open>Auxiliary facts\<close>

lemma Math_floor_quotient: "Math_floor (of_int a / of_int b) = a div b"
  by (simp add: Math_floor_def floor_divide_of_int_eq)

lemma Math_floor_of_int_diff: "Math_floor (of_int a - of_int b) = a - b"
proof -
  have "Math_floor (of_int a - of_int b) = Math_floor (of_int (a - b))"
    by simp
  also have "\<dots> = a - b"
    unfolding Math_floor_def by (rule floor_of_int)
  finally show ?thesis .
qed

text \<open>The column count with the flooring quotient written as integer division.\<close>

lemma getNumGridColumns_div:
  "getNumGridColumns numTabs gridWidth =
     (if numTabs = 1 then 1
      else if (gridWidth div (getTabWidth numTabs + 2) + 1) * getTabWidth numTabs
                + gridWidth div (getTabWidth numTabs + 2) * 2 \<le> gridWidth
           then gridWidth div (getTabWidth numTabs + 2) + 1
           else gridWidth div (getTabWidth numTabs + 2))"
  unfolding getNumGridColumns_def Let_def Math_floor_quotient tabSpacerWidth_def
  by simp

text \<open>On a non-negative dividend and a positive divisor, \<open>%\<close> is \<open>mod\<close>.\<close>

lemma js_rem_nonneg: "0 \<le> a \<Longrightarrow> 0 < b \<Longrightarrow> js_rem a b = Some (a mod b)"
  by (cases "a = 0") (simp_all add: js_rem_def)

text \<open>The inset that \<open>getGridStyle\<close> computes, with the floor of the difference removed.\<close>

lemma getGridStyle_inset:
  "getGridStyle side numTabs gridWidth expandedWidth =
     \<lparr> position = ''relative'',
       right = (if side = ''left''
                then Some (Px (max 0 (of_int (expandedWidth - gridWidth) / 2 - 30)))
                else None),
       left = (if side = ''left''
               then None
               else Some (Px (max 0 (of_int (expandedWidth - gridWidth) / 2 - 30)))),
       width = Px (of_int gridWidth) \<rparr>"
  by (simp add: getGridStyle_def Math_floor_of_int_diff closeIconWidth_def Let_def)

lemma nth_fragments:
  assumes "i < length tabs"
  shows "fragments (getTabGridComponent side tabs activeTabIndex gridWidth expandedWidth) ! i =
           tabFragment (getNumGridColumns (int (length tabs)) gridWidth) (int (length tabs))
             activeTabIndex (tabs ! i) (int i)"
  using assms by (simp add: getTabGridComponent_def Let_def)

lemma rounded_l_iff:
  "(''rounded-l'' \<in> set (getTabClassNames numColumns numTabs tabIndex a d)) =
     (js_rem tabIndex numColumns = Some 0)"
  by (simp add: getTabClassNames_def classnames_def)

lemma rounded_r_iff:
  "(''rounded-r'' \<in> set (getTabClassNames numColumns numTabs tabIndex a d)) =
     (js_rem (tabIndex + 1) numColumns = Some 0 \<or> tabIndex = numTabs - 1)"
  by (simp add: getTabClassNames_def classnames_def)

text \<open>The specification's operations with the floors written as integer division.\<close>

lemma columnCount_spec_div:
  "columnCount_spec numberOfTabs gridWidth =
     (if numberOfTabs = 1 then 1
      else if (gridWidth div (getTabWidth numberOfTabs + 2) + 1) * getTabWidth numberOfTabs
                + gridWidth div (getTabWidth numberOfTabs + 2) * 2 \<le> gridWidth
           then gridWidth div (getTabWidth numberOfTabs + 2) + 1
           else gridWidth div (getTabWidth numberOfTabs + 2))"
  unfolding columnCount_spec_def Let_def floor_divide_of_int_eq
  by simp

lemma horizontalOffset_spec_div:
  "horizontalOffset_spec expandedPanelWidth gridWidth =
     max 0 ((expandedPanelWidth - gridWidth) div 2 - 30)"
proof -
  have "\<lfloor>(of_int expandedPanelWidth - of_int gridWidth :: rat) / 2\<rfloor>
          = \<lfloor>(of_int (expandedPanelWidth - gridWidth) :: rat) / of_int 2\<rfloor>"
    by simp
  also have "\<dots> = (expandedPanelWidth - gridWidth) div 2"
    by (rule floor_divide_of_int_eq)
  finally show ?thesis
    by (simp add: horizontalOffset_spec_def)
qed

lemma sixty_five_halves_not_int: "(65 / 2 :: rat) \<notin> \<int>"
proof
  assume "(65 / 2 :: rat) \<in> \<int>"
  then obtain k :: int where "(65 / 2 :: rat) = of_int k"
    by (rule Ints_cases)
  then have "(of_int 65 :: rat) = of_int (2 * k)"
    by simp
  then have "(65 :: int) = 2 * k"
    by (simp only: of_int_eq_iff)
  then show False
    by presburger
qed

section \<open>Properties\<close>

subsection \<open>Tab width\<close>

text \<open>
  C6. For every integer \<open>numberOfTabs \<ge> 1\<close>, the tab width is 68 when there are fewer
  than three tabs and 40 otherwise. The operation has no error case: the model has no
  failing branch, and its value is always one of the two constants.
\<close>

theorem getTabWidth_cases:
  assumes "1 \<le> numTabs"
  shows "getTabWidth numTabs = (if numTabs < 3 then 68 else 40)"
  by (simp add: getTabWidth_def)

theorem getTabWidth_cases_witness:
  "(1::int) \<le> 2 \<and> getTabWidth 2 = 68 \<and> (1::int) \<le> 3 \<and> getTabWidth 3 = 40"
  using getTabWidth_cases [of 2] getTabWidth_cases [of 3] by simp

subsection \<open>Grid width\<close>

text \<open>
  C4. For every \<open>numberOfTabs \<ge> 1\<close> and \<open>availableWidth \<ge> 0\<close>, the grid width is the
  smaller of the natural width \<open>tabWidth * numberOfTabs + (numberOfTabs - 1) * 2\<close> and
  the available width; so it never exceeds the available width.
\<close>

theorem getGridWidth_min:
  assumes "1 \<le> numTabs" and "0 \<le> availableWidth"
  shows "getGridWidth numTabs availableWidth =
           min (getTabWidth numTabs * numTabs + (numTabs - 1) * 2) availableWidth
         \<and> getGridWidth numTabs availableWidth \<le> availableWidth"
  by (simp add: getGridWidth_def tabSpacerWidth_def Let_def min_def)

theorem getGridWidth_min_witness:
  "(1::int) \<le> 5 \<and> (0::int) \<le> 150 \<and> getGridWidth 5 150 = min (40 * 5 + (5 - 1) * 2) 150
   \<and> getGridWidth 5 150 \<le> 150"
  using getGridWidth_min [of 5 150] by (simp add: getTabWidth_def)

subsection \<open>Column count\<close>

text \<open>
  C1. For every \<open>numberOfTabs \<ge> 1\<close> and \<open>gridWidth \<ge> 0\<close>, the column count that the
  code computes is the one the specification describes: 1 for a single tab; otherwise,
  with \<open>w\<close> the tab width and \<open>k = floor (gridWidth / (w + 2))\<close>, it is \<open>k + 1\<close> if
  \<open>(k + 1) * w + k * 2 \<le> gridWidth\<close> and \<open>k\<close> otherwise.
\<close>

theorem getNumGridColumns_spec:
  assumes "1 \<le> numTabs" and "0 \<le> gridWidth"
  shows "getNumGridColumns numTabs gridWidth = columnCount_spec numTabs gridWidth"
  by (simp only: getNumGridColumns_div columnCount_spec_div)

theorem getNumGridColumns_spec_witness:
  "(1::int) \<le> 5 \<and> (0::int) \<le> 208 \<and> getNumGridColumns 5 208 = columnCount_spec 5 208
   \<and> columnCount_spec 5 208 = 5"
  using getNumGridColumns_spec [of 5 208]
  by (simp add: columnCount_spec_div getTabWidth_def)

text \<open>
  C2, as stated, fails. With two tabs and an available width of 0 (a panel whose
  \<open>expandedWidth\<close> is 40) the grid width is 0, and the column count is 0, not at least 1:
  no tab of width 68 fits, and nothing in \<open>getNumGridColumns\<close> raises the result to 1.
\<close>

theorem getNumGridColumns_zero_counterexample:
  "(2::int) \<le> 2 \<and> gridAvailableWidth 40 = 0 \<and> getGridWidth 2 (gridAvailableWidth 40) = 0
   \<and> (0::int) \<le> getGridWidth 2 (gridAvailableWidth 40)
   \<and> getNumGridColumns 2 (getGridWidth 2 (gridAvailableWidth 40)) = 0
   \<and> \<not> 1 \<le> getNumGridColumns 2 0"
  by (simp add: getNumGridColumns_div getGridWidth_def getTabWidth_def tabSpacerWidth_def
      gridAvailableWidth_def closeIconWidth_def gridHorizontalPadding_def)

text \<open>
  C2, amended. For every \<open>numberOfTabs \<ge> 2\<close> and \<open>gridWidth \<ge> 0\<close>: when the grid is at
  least as wide as one tab, the column count is at least 1; when the grid is narrower
  than one tab, the column count is 0.
\<close>

theorem getNumGridColumns_positive:
  assumes "2 \<le> numTabs" and "0 \<le> gridWidth"
  shows "(getTabWidth numTabs \<le> gridWidth \<longrightarrow> 1 \<le> getNumGridColumns numTabs gridWidth)
         \<and> (gridWidth < getTabWidth numTabs \<longrightarrow> getNumGridColumns numTabs gridWidth = 0)"
proof (cases "numTabs < 3")
  case True
  with assms show ?thesis
    unfolding getNumGridColumns_div getTabWidth_def by (auto; presburger?)
next
  case False
  with assms show ?thesis
    unfolding getNumGridColumns_div getTabWidth_def by (auto; presburger?)
qed

theorem getNumGridColumns_positive_witness:
  "(2::int) \<le> 5 \<and> (0::int) \<le> 150 \<and> getTabWidth 5 \<le> 150 \<and> 1 \<le> getNumGridColumns 5 150
   \<and> (0::int) \<le> 39 \<and> 39 < getTabWidth 5 \<and> getNumGridColumns 5 39 = 0"
  using getNumGridColumns_positive [of 5 150] getNumGridColumns_positive [of 5 39]
  by (simp add: getTabWidth_def)

text \<open>
  C5. Five tabs in an available width of 400: tab width 40, grid width 208, five columns.
  Five tabs in an available width of 150: grid width 150, three columns.
\<close>

theorem layout_scenarios:
  "getTabWidth 5 = 40 \<and> getGridWidth 5 400 = 208 \<and> getNumGridColumns 5 208 = 5
   \<and> getNumGridColumns 5 (getGridWidth 5 400) = 5
   \<and> getGridWidth 5 150 = 150 \<and> getNumGridColumns 5 150 = 3
   \<and> getNumGridColumns 5 (getGridWidth 5 150) = 3"
  by (simp add: getNumGridColumns_div getGridWidth_def getTabWidth_def tabSpacerWidth_def)

text \<open>
  C10. For every \<open>numberOfTabs \<ge> 1\<close> and \<open>availableWidth \<ge> 0\<close>, the column count of
  the grid width computed for that available width is at most the number of tabs.
\<close>

theorem getNumGridColumns_le_numTabs:
  assumes "1 \<le> numTabs" and "0 \<le> availableWidth"
  shows "getNumGridColumns numTabs (getGridWidth numTabs availableWidth) \<le> numTabs"
proof -
  consider "numTabs = 1" | "numTabs = 2" | "3 \<le> numTabs"
    using assms by linarith
  then show ?thesis
  proof cases
    case 1
    then show ?thesis by (simp add: getNumGridColumns_div)
  next
    case 2
    then show ?thesis
      unfolding getNumGridColumns_div getGridWidth_def getTabWidth_def tabSpacerWidth_def Let_def
      by (auto; presburger?)
  next
    case 3
    then show ?thesis
      unfolding getNumGridColumns_div getGridWidth_def getTabWidth_def tabSpacerWidth_def Let_def
      by (auto; presburger?)
  qed
qed

theorem getNumGridColumns_le_numTabs_witness:
  "(1::int) \<le> 5 \<and> (0::int) \<le> 150 \<and> getNumGridColumns 5 (getGridWidth 5 150) \<le> 5"
  using getNumGridColumns_le_numTabs [of 5 150] by simp

subsection \<open>Horizontal offset\<close>

text \<open>
  C3 says that the offset is \<open>max (0, floor ((expandedPanelWidth - gridWidth) / 2) - 30)\<close>,
  an integer. The code floors the difference, not the half: for a panel with
  \<open>expandedWidth = 249\<close> and three tabs the grid width is 124, the free width 125 is odd,
  and the inset is 32.5 on either side, where the specification gives 32.
\<close>

theorem getGridStyle_half_pixel:
  "getGridWidth 3 (gridAvailableWidth 249) = 124
   \<and> right (getGridStyle ''left'' 3 124 249) = Some (Px (65 / 2))
   \<and> left (getGridStyle ''right'' 3 124 249) = Some (Px (65 / 2))
   \<and> horizontalOffset_spec 249 124 = 32
   \<and> (65 / 2 :: rat) \<noteq> of_int (horizontalOffset_spec 249 124)
   \<and> (65 / 2 :: rat) \<notin> \<int>"
  using sixty_five_halves_not_int
  by (simp add: getGridStyle_inset horizontalOffset_spec_div gridAvailableWidth_def
      getGridWidth_def getTabWidth_def tabSpacerWidth_def closeIconWidth_def
      gridHorizontalPadding_def)

text \<open>
  C7. For every side and all \<open>expandedPanelWidth \<ge> 0\<close> and \<open>gridWidth \<ge> 0\<close>, the inset
  that the grid style carries (as \<open>right\<close> for the left panel, as \<open>left\<close> otherwise) is
  not negative.
\<close>

theorem getGridStyle_offset_nonneg:
  assumes "0 \<le> expandedWidth" and "0 \<le> gridWidth"
  shows "\<exists>v. 0 \<le> v \<and>
           (if side = ''left''
            then right (getGridStyle side numTabs gridWidth expandedWidth) = Some (Px v)
               \<and> left (getGridStyle side numTabs gridWidth expandedWidth) = None
            else left (getGridStyle side numTabs gridWidth expandedWidth) = Some (Px v)
               \<and> right (getGridStyle side numTabs gridWidth expandedWidth) = None)"
  by (rule exI [of _ "max 0 (of_int (expandedWidth - gridWidth) / 2 - 30)"])
     (simp add: getGridStyle_inset)

theorem getGridStyle_offset_nonneg_witness:
  "(0::int) \<le> 124 \<and>
   (\<exists>v. 0 \<le> v \<and> right (getGridStyle ''left'' 3 124 124) = Some (Px v)
           \<and> left (getGridStyle ''left'' 3 124 124) = None)"
proof -
  have h: "(0::int) \<le> 124" by simp
  show ?thesis
    using h getGridStyle_offset_nonneg [OF h h, of "''left''" 3] by simp
qed

subsection \<open>Placement of spacers and rounded corners\<close>

text \<open>
  C8. For every tab list whose grid has at least one column, there is one fragment per
  tab, and for the tab at index \<open>i\<close>: the spacer is rendered before it exactly when
  \<open>i mod columnCount\<close> is not 0; its class names hold \<open>rounded-l\<close> exactly when
  \<open>i mod columnCount = 0\<close>; and they hold \<open>rounded-r\<close> exactly when
  \<open>(i + 1) mod columnCount = 0\<close> or \<open>i\<close> is the last index.
\<close>

theorem tab_grid_placement:
  assumes "1 \<le> getNumGridColumns (int (length tabs)) gridWidth" and "i < length tabs"
  shows "length (fragments (getTabGridComponent side tabs activeTabIndex gridWidth expandedWidth))
           = length tabs
         \<and> spacer (fragments (getTabGridComponent side tabs activeTabIndex gridWidth expandedWidth) ! i)
             = (int i mod getNumGridColumns (int (length tabs)) gridWidth \<noteq> 0)
         \<and> (''rounded-l'' \<in> set (className
               (fragments (getTabGridComponent side tabs activeTabIndex gridWidth expandedWidth) ! i)))
             = (int i mod getNumGridColumns (int (length tabs)) gridWidth = 0)
         \<and> (''rounded-r'' \<in> set (className
               (fragments (getTabGridComponent side tabs activeTabIndex gridWidth expandedWidth) ! i)))
             = ((int i + 1) mod getNumGridColumns (int (length tabs)) gridWidth = 0
                \<or> int i = int (length tabs) - 1)"
proof -
  let ?c = "getNumGridColumns (int (length tabs)) gridWidth"
  have pos: "0 < ?c" using assms(1) by simp
  have r0: "js_rem (int i) ?c = Some (int i mod ?c)"
    by (rule js_rem_nonneg) (simp_all add: pos)
  have r1: "js_rem (int i + 1) ?c = Some ((int i + 1) mod ?c)"
    by (rule js_rem_nonneg) (simp_all add: pos)
  have len: "length (fragments (getTabGridComponent side tabs activeTabIndex gridWidth expandedWidth))
               = length tabs"
    by (simp add: getTabGridComponent_def Let_def)
  show ?thesis
    unfolding nth_fragments [OF assms(2)] len
    by (simp add: tabFragment_def rounded_l_iff rounded_r_iff r0 r1)
qed

theorem tab_grid_placement_witness:
  "1 \<le> getNumGridColumns (int (length
       (map (\<lambda>n. \<lparr>name = n, label = n, iconName = n, disabled = False\<rparr>)
            [''a'', ''b'', ''c'', ''d'', ''e'']))) 150
   \<and> \<not> spacer (fragments (getTabGridComponent ''left''
       (map (\<lambda>n. \<lparr>name = n, label = n, iconName = n, disabled = False\<rparr>)
            [''a'', ''b'', ''c'', ''d'', ''e'']) 0 150 248) ! 3)
   \<and> ''rounded-l'' \<in> set (className (fragments (getTabGridComponent ''left''
       (map (\<lambda>n. \<lparr>name = n, label = n, iconName = n, disabled = False\<rparr>)
            [''a'', ''b'', ''c'', ''d'', ''e'']) 0 150 248) ! 3))
   \<and> ''rounded-r'' \<notin> set (className (fragments (getTabGridComponent ''left''
       (map (\<lambda>n. \<lparr>name = n, label = n, iconName = n, disabled = False\<rparr>)
            [''a'', ''b'', ''c'', ''d'', ''e'']) 0 150 248) ! 3))"
proof -
  let ?tabs = "map (\<lambda>n. \<lparr>name = n, label = n, iconName = n, disabled = False\<rparr>)
                 [''a'', ''b'', ''c'', ''d'', ''e'']"
  have c: "getNumGridColumns (int (length ?tabs)) 150 = 3"
    by (simp add: getNumGridColumns_div getTabWidth_def)
  have h1: "1 \<le> getNumGridColumns (int (length ?tabs)) 150"
    unfolding c by simp
  have h2: "3 < length ?tabs"
    by simp
  show ?thesis
    using h1 tab_grid_placement [OF h1 h2, of "''left''" 0 248]
    unfolding c by simp
qed

end
